theory Spec2Isabelle
  imports Main
begin

section \<open>tele-scope: a shallow embedding of \<open>tele_scope.py\<close>\<close>

text \<open>
  The script drives a git repository through GitPython. The model keeps the script's own
  control flow and makes the two things it cannot compute explicit: what every call into
  GitPython answers (a parameter, field \<open>git\<close> of the repository object), and the
  sequence of calls the script makes (an event log that every method extends).
\<close>

subsection \<open>Exceptions (lines 5-23)\<close>

text \<open>
  The exception classes of the script, and the library exceptions it catches or lets
  through. The string is the exception's \<open>message\<close> attribute.
\<close>

datatype exn =
    BranchError string
  | StashError string
  | CommitError string
  | RemoteError string
  | ConflictError string
  | TypeError string
  | AttributeError string
  | IndexError string
  | ValueError string
  | GitCommandError string
  | InvalidGitRepositoryError string
  | OtherException string

fun exn_message :: "exn \<Rightarrow> string" where
  "exn_message (BranchError m) = m"
| "exn_message (StashError m) = m"
| "exn_message (CommitError m) = m"
| "exn_message (RemoteError m) = m"
| "exn_message (ConflictError m) = m"
| "exn_message (TypeError m) = m"
| "exn_message (AttributeError m) = m"
| "exn_message (IndexError m) = m"
| "exn_message (ValueError m) = m"
| "exn_message (GitCommandError m) = m"
| "exn_message (InvalidGitRepositoryError m) = m"
| "exn_message (OtherException m) = m"

text \<open>A name between single quotes, as Python's messages print it.\<close>

definition quoted :: "string \<Rightarrow> string" where
  "quoted s = CHR 0x27 # s @ [CHR 0x27]"

text \<open>
  Inside a class body Python rewrites an identifier that starts with two underscores and
  does not end with two underscores to \<open>_Class\<close> followed by the identifier.
\<close>

definition mangle :: "string \<Rightarrow> string \<Rightarrow> string" where
  "mangle cls name =
     (if take 2 name = ''__'' \<and> drop (length name - 2) name \<noteq> ''__''
      then ''_'' @ cls @ name else name)"

text \<open>The attributes a \<open>super\<close> proxy on \<open>StandardError\<close> resolves (Python 2).\<close>

definition StandardError_attrs :: "string list" where
  "StandardError_attrs =
     [''__init__'', ''__new__'', ''__str__'', ''__repr__'', ''__unicode__'',
      ''__getitem__'', ''__getslice__'', ''__reduce__'', ''__setstate__'',
      ''__getattribute__'', ''__setattr__'', ''__delattr__'', ''__dict__'',
      ''__class__'', ''__doc__'', ''__hash__'', ''__format__'', ''__sizeof__'',
      ''__reduce_ex__'', ''__subclasshook__'', ''args'', ''message'']"

text \<open>
  \<open>super(C, self).name(message)\<close> in the constructor of class \<open>C\<close>, and with it what
  \<open>raise C(message)\<close> propagates: the exception \<open>ex\<close> itself when the attribute
  resolves, an AttributeError from the constructor otherwise.
\<close>

definition super_init :: "string \<Rightarrow> string \<Rightarrow> exn \<Rightarrow> exn" where
  "super_init cls name ex =
     (if mangle cls name \<in> set StandardError_attrs then ex
      else AttributeError
             (quoted ''super'' @ '' object has no attribute '' @ quoted (mangle cls name)))"

text \<open>Line 7 calls \<open>__init\<close>; lines 11, 15, 19 and 23 call \<open>__init__\<close>.\<close>

definition raise_BranchError :: "string \<Rightarrow> exn" where
  "raise_BranchError m = super_init ''BranchError'' ''__init'' (BranchError m)"

definition raise_StashError :: "string \<Rightarrow> exn" where
  "raise_StashError m = super_init ''StashError'' ''__init__'' (StashError m)"

definition raise_CommitError :: "string \<Rightarrow> exn" where
  "raise_CommitError m = super_init ''CommitError'' ''__init__'' (CommitError m)"

definition raise_RemoteError :: "string \<Rightarrow> exn" where
  "raise_RemoteError m = super_init ''RemoteError'' ''__init__'' (RemoteError m)"

definition raise_ConflictError :: "string \<Rightarrow> exn" where
  "raise_ConflictError m = super_init ''ConflictError'' ''__init__'' (ConflictError m)"

subsection \<open>Exit statuses (lines 25-27)\<close>

definition SUCCESS :: nat where "SUCCESS = 0"
definition BRANCHERROR :: nat where "BRANCHERROR = 1"
definition STASHERROR :: nat where "STASHERROR = 2"
definition COMMITERROR :: nat where "COMMITERROR = 3"
definition REMOTERROR :: nat where "REMOTERROR = 4"
definition CONFLICTS :: nat where "CONFLICTS = 5"

subsection \<open>The repository object and the event log\<close>

text \<open>
  Every call the script makes outside itself: reads of the repository object, git
  commands, and writes to the standard streams.
\<close>

datatype call =
    ActiveBranch
  | ConfigReader
  | HasOption string string
  | GetValue string string
  | GitStash
  | HeadsGetitem string
  | Checkout string
  | GitStashApply
  | GitAdd string
  | GitCommit "string option" "string option"
  | RemotePush string
  | RemotesGetitem string
  | RemotePull string
  | HeadReset
  | CheckoutForce
  | GitRebase string
  | GitStashDrop
  | StderrWrite string
  | Print string

text \<open>An event is a call with the exception it raised, \<open>None\<close> when it returned.\<close>

type_synonym event = "call \<times> exn option"

datatype pyclass = GitRepo | SubclassOfGitRepo string | OtherClass string

text \<open>
  The remote argument of the constructor: the class documents a remote's name
  (default \<open>'origin'\<close>), the command line passes the Remote object \<open>repo.remotes[name]\<close>.
\<close>

datatype pyremote = RemoteName string | RemoteObj string

text \<open>
  The repository object as the script sees it. \<open>active_branch\<close> is
  \<open>repo.active_branch.name\<close> (an exception when HEAD is detached); \<open>config\<close> is what
  the configuration reader holds, by section and option; \<open>heads\<close> and \<open>remotes\<close>
  are the names of the branches and remotes; \<open>git\<close> answers a command, given the events
  so far, with a result string or an exception; \<open>os_abspath\<close> is \<open>os.path.abspath\<close>
  in the directory the process runs in.
\<close>

record git_repo =
  cls :: pyclass
  active_branch :: "exn + string"
  config :: "string \<times> string \<Rightarrow> string option"
  heads :: "string list"
  remotes :: "string list"
  working_dir :: string
  git :: "event list \<Rightarrow> call \<Rightarrow> exn + string"
  os_abspath :: "string \<Rightarrow> string"

definition log_ok :: "event list \<Rightarrow> call \<Rightarrow> event list" where
  "log_ok tr c = tr @ [(c, None)]"

definition log_raise :: "event list \<Rightarrow> call \<Rightarrow> exn \<Rightarrow> event list" where
  "log_raise tr c e = tr @ [(c, Some e)]"

text \<open>A git command: ask the repository, log the call with its outcome.\<close>

definition invoke :: "git_repo \<Rightarrow> event list \<Rightarrow> call \<Rightarrow> (exn + string) \<times> event list" where
  "invoke r tr c =
     (case git r tr c of
        Inl e \<Rightarrow> (Inl e, log_raise tr c e)
      | Inr v \<Rightarrow> (Inr v, log_ok tr c))"

text \<open>
  Indexing GitPython's list of heads or remotes by name: IndexError when no item has
  the name.
\<close>

definition getitem :: "string list \<Rightarrow> (string \<Rightarrow> call) \<Rightarrow> event list \<Rightarrow> string
    \<Rightarrow> (exn + string) \<times> event list" where
  "getitem names c tr name =
     (if name \<in> set names then (Inr name, log_ok tr (c name))
      else (Inl (IndexError (''No item found with id '' @ name)),
            log_raise tr (c name) (IndexError (''No item found with id '' @ name))))"

subsection \<open>The class \<open>TeleScope\<close> (lines 29-187)\<close>

record TeleScope =
  repo :: git_repo
  thisbranch :: string
  upstream :: string
  remote :: "pyremote option"
  user :: "string option"
  email :: "string option"
  message :: "string option"
  norebase :: bool
  noclear :: bool
  reapply :: bool
  pull :: bool

text \<open>
  The attributes an instance resolves: the fields \<open>__init__\<close> assigns and the methods
  of the class.
\<close>

definition TeleScope_attrs :: "string list" where
  "TeleScope_attrs =
     [''repo'', ''thisbranch'', ''upstream'', ''remote'', ''user'', ''email'', ''message'',
      ''norebase'', ''noclear'', ''reapply'', ''pull'',
      ''__init__'', ''getOption'', ''stashChanges'', ''switchBranch'', ''pullFromRemote'',
      ''applyChanges'', ''backoutChanges'', ''switchAndRebase'', ''__doc__'', ''__module__'']"

text \<open>\<open>str.split(sep)\<close> for a one-character separator.\<close>

fun split_on :: "char \<Rightarrow> string \<Rightarrow> string list" where
  "split_on sep [] = [Nil]"
| "split_on sep (c # cs) =
     (if c = sep then [] # split_on sep cs
      else (case split_on sep cs of
              [] \<Rightarrow> [c # Nil]
            | w # ws \<Rightarrow> (c # w) # ws))"

text \<open>
  \<open>getOption\<close> (lines 79-83). Unpacking the split into two names raises ValueError
  unless there are exactly two parts; \<open>and\<close> asks the reader only when the value is
  \<open>None\<close>.
\<close>

definition getOption :: "git_repo \<Rightarrow> event list \<Rightarrow> string \<Rightarrow> string option
    \<Rightarrow> (exn + string option) \<times> event list" where
  "getOption reader tr name val =
     (case split_on CHR ''.'' name of
        [sect, opt] \<Rightarrow>
          (if val = None then
             (let tr1 = log_ok tr (HasOption sect opt) in
              if config reader (sect, opt) \<noteq> None
              then (Inr (config reader (sect, opt)), log_ok tr1 (GetValue sect opt))
              else (Inr val, tr1))
           else (Inr val, tr))
      | [part] \<Rightarrow> (Inl (ValueError ''need more than 1 value to unpack''), tr)
      | _ \<Rightarrow> (Inl (ValueError ''too many values to unpack''), tr))"

text \<open>\<open>__init__\<close> (lines 56-77).\<close>

definition TeleScope_init :: "git_repo \<Rightarrow> event list \<Rightarrow> string \<Rightarrow> pyremote option
    \<Rightarrow> string option \<Rightarrow> string option \<Rightarrow> string option \<Rightarrow> bool \<Rightarrow> bool \<Rightarrow> bool
    \<Rightarrow> (exn + TeleScope) \<times> event list" where
  "TeleScope_init r tr upstream_arg remote_arg user_arg email_arg message_arg
       norebase_arg noclear_arg pull_arg =
     (if cls r \<noteq> GitRepo
      then (Inl (TypeError (quoted ''repo'' @ '' must be a Git repository object.'')), tr)
      else
        (case active_branch r of
           Inl e \<Rightarrow> (Inl e, log_raise tr ActiveBranch e)
         | Inr b \<Rightarrow>
             (let tr1 = log_ok (log_ok tr ActiveBranch) ConfigReader in
              case getOption r tr1 ''user.name'' user_arg of
                (Inl e, tr2) \<Rightarrow> (Inl e, tr2)
              | (Inr u, tr2) \<Rightarrow>
                  (case getOption r tr2 ''user.email'' email_arg of
                     (Inl e, tr3) \<Rightarrow> (Inl e, tr3)
                   | (Inr em, tr3) \<Rightarrow>
                       (Inr \<lparr>repo = r, thisbranch = b, upstream = upstream_arg,
                             remote = remote_arg, user = u, email = em,
                             message = message_arg, norebase = norebase_arg,
                             noclear = noclear_arg, reapply = False, pull = pull_arg\<rparr>,
                        tr3)))))"

text \<open>
  A handler \<open>except git.GitCommandError as ex: raise h(ex.message)\<close>: what leaves the
  \<open>try\<close> block when \<open>e\<close> was raised inside it.
\<close>

definition on_GitCommandError :: "(string \<Rightarrow> exn) \<Rightarrow> exn \<Rightarrow> exn" where
  "on_GitCommandError h e = (case e of GitCommandError m \<Rightarrow> h m | _ \<Rightarrow> e)"

text \<open>\<open>stashChanges\<close> (lines 85-93).\<close>

definition stashChanges :: "TeleScope \<Rightarrow> event list \<Rightarrow> exn option \<times> event list" where
  "stashChanges self tr =
     (case invoke (repo self) tr GitStash of
        (Inl e, tr1) \<Rightarrow> (Some (on_GitCommandError raise_StashError e), tr1)
      | (Inr result, tr1) \<Rightarrow>
          (if result = ''No local changes to save''
           then (Some (raise_StashError result), tr1)
           else (None, tr1)))"

text \<open>The three handlers of \<open>switchBranch\<close> (lines 99-104), in their order.\<close>

definition switchBranch_except :: "string \<Rightarrow> exn \<Rightarrow> exn" where
  "switchBranch_except branch e =
     (case e of
        IndexError _ \<Rightarrow> raise_BranchError (''Branch '' @ branch @ '' not found.'')
      | TypeError _ \<Rightarrow> raise_BranchError ''branch argument should be a string.''
      | GitCommandError m \<Rightarrow> raise_BranchError m
      | _ \<Rightarrow> e)"

text \<open>\<open>switchBranch\<close> (lines 95-104).\<close>

definition switchBranch :: "TeleScope \<Rightarrow> event list \<Rightarrow> string \<Rightarrow> exn option \<times> event list" where
  "switchBranch self tr branch =
     (case getitem (heads (repo self)) HeadsGetitem tr branch of
        (Inl e, tr1) \<Rightarrow> (Some (switchBranch_except branch e), tr1)
      | (Inr b, tr1) \<Rightarrow>
          (case invoke (repo self) tr1 (Checkout b) of
             (Inl e, tr2) \<Rightarrow> (Some (switchBranch_except branch e), tr2)
           | (Inr _, tr2) \<Rightarrow> (None, tr2)))"

text \<open>The two handlers of \<open>pullFromRemote\<close> (lines 110-113).\<close>

definition pullFromRemote_except :: "string \<Rightarrow> exn \<Rightarrow> exn" where
  "pullFromRemote_except name e =
     (case e of
        IndexError _ \<Rightarrow> raise_RemoteError (''Remote '' @ name @ '' not found'')
      | _ \<Rightarrow> raise_RemoteError (''Problem with pull:'' @ [CHR 0x0A] @ exn_message e))"

text \<open>
  \<open>pullFromRemote\<close> (lines 106-113). The list of remotes is indexed by \<open>self.remote\<close>:
  a name is looked up; anything else (\<open>None\<close>, a Remote object) is no attribute name and
  the lookup raises TypeError, which the second handler wraps.
\<close>

definition pullFromRemote :: "TeleScope \<Rightarrow> event list \<Rightarrow> exn option \<times> event list" where
  "pullFromRemote self tr =
     (case remote self of
        Some (RemoteName n) \<Rightarrow>
          (case getitem (remotes (repo self)) RemotesGetitem tr n of
             (Inl e, tr1) \<Rightarrow> (Some (pullFromRemote_except n e), tr1)
           | (Inr rm, tr1) \<Rightarrow>
               (case invoke (repo self) tr1 (RemotePull rm) of
                  (Inl e, tr2) \<Rightarrow> (Some (pullFromRemote_except n e), tr2)
                | (Inr _, tr2) \<Rightarrow> (None, tr2)))
      | _ \<Rightarrow>
          (Some (pullFromRemote_except []
                   (TypeError ''getattr(): attribute name must be string'')), tr))"

text \<open>The loop of lines 136-137: one \<open>git add\<close> for each file, until one raises.\<close>

fun add_files :: "git_repo \<Rightarrow> event list \<Rightarrow> string list \<Rightarrow> exn option \<times> event list" where
  "add_files r tr [] = (None, tr)"
| "add_files r tr (newfile # rest) =
     (case invoke r tr (GitAdd (os_abspath r newfile)) of
        (Inl e, tr1) \<Rightarrow> (Some e, tr1)
      | (Inr _, tr1) \<Rightarrow> add_files r tr1 rest)"

text \<open>The author string (lines 141-146).\<close>

definition authorstring :: "string option \<Rightarrow> string option \<Rightarrow> string option" where
  "authorstring u e =
     (case e of
        None \<Rightarrow> u
      | Some em \<Rightarrow>
          (case u of
             None \<Rightarrow> Some em
           | Some n \<Rightarrow> Some (n @ '' <'' @ em @ ''>'')))"

text \<open>
  The push (lines 153-158). A Remote object is pushed; a name is a \<open>str\<close>, which has no
  \<open>push\<close>. Line 156 binds what the push returns to \<open>result\<close>, which is not read again.
\<close>

definition push_changes :: "TeleScope \<Rightarrow> event list \<Rightarrow> exn option \<times> event list" where
  "push_changes self tr =
     (case remote self of
        None \<Rightarrow> (None, tr)
      | Some (RemoteObj n) \<Rightarrow>
          (case invoke (repo self) tr (RemotePush n) of
             (Inl e, tr1) \<Rightarrow>
               (Some (on_GitCommandError
                        (\<lambda>m. raise_RemoteError (''Problem with push:'' @ [CHR 0x0A] @ m)) e), tr1)
           | (Inr _, tr1) \<Rightarrow> (None, tr1))
      | Some (RemoteName n) \<Rightarrow>
          (Some (AttributeError
                   (quoted ''str'' @ '' object has no attribute '' @ quoted ''push'')), tr))"

text \<open>
  \<open>backoutChanges\<close> (lines 163-165). Line 165 reads \<open>self.active_branch\<close>, an attribute
  of the TeleScope instance.
\<close>

definition backoutChanges :: "TeleScope \<Rightarrow> event list \<Rightarrow> exn option \<times> event list" where
  "backoutChanges self tr =
     (case invoke (repo self) tr HeadReset of
        (Inl e, tr1) \<Rightarrow> (Some e, tr1)
      | (Inr _, tr1) \<Rightarrow>
          (if ''active_branch'' \<in> set TeleScope_attrs
           then (case invoke (repo self) tr1 CheckoutForce of
                   (Inl e, tr2) \<Rightarrow> (Some e, tr2)
                 | (Inr _, tr2) \<Rightarrow> (None, tr2))
           else (Some (AttributeError
                         (''TeleScope instance has no attribute '' @ quoted ''active_branch'')),
                 tr1)))"

text \<open>\<open>applyChanges\<close> (lines 116-161). The instance is returned with \<open>reapply\<close> updated.\<close>

definition applyChanges :: "TeleScope \<Rightarrow> event list \<Rightarrow> string list option
    \<Rightarrow> exn option \<times> TeleScope \<times> event list" where
  "applyChanges self tr files =
     (case switchBranch self tr (upstream self) of
        (Some e, tr1) \<Rightarrow> (Some e, self, tr1)
      | (None, tr1) \<Rightarrow>
          (case invoke (repo self) tr1 GitStashApply of
             (Inl e, tr2) \<Rightarrow> (Some (on_GitCommandError raise_StashError e), self, tr2)
           | (Inr result, tr2) \<Rightarrow>
               (let files1 = (case files of None \<Rightarrow> [working_dir (repo self)] | Some fs \<Rightarrow> fs);
                    self1 = (case files of None \<Rightarrow> self | Some fs \<Rightarrow> self\<lparr>reapply := True\<rparr>)
                in case add_files (repo self1) tr2 files1 of
                     (Some e, tr3) \<Rightarrow> (Some (on_GitCommandError raise_CommitError e), self1, tr3)
                   | (None, tr3) \<Rightarrow>
                       (case invoke (repo self1) tr3
                               (GitCommit (authorstring (user self1) (email self1))
                                  (message self1)) of
                          (Inl e, tr4) \<Rightarrow>
                            (Some (on_GitCommandError raise_CommitError e), self1, tr4)
                        | (Inr _, tr4) \<Rightarrow>
                            (case push_changes self1 tr4 of
                               (Some e, tr5) \<Rightarrow> (Some e, self1, tr5)
                             | (None, tr5) \<Rightarrow>
                                 (if reapply self1
                                  then (case backoutChanges self1 tr5 of
                                          (res, tr6) \<Rightarrow> (res, self1, tr6))
                                  else (None, self1, tr5)))))))"

text \<open>The rebase (lines 175-181).\<close>

definition rebase_step :: "TeleScope \<Rightarrow> event list \<Rightarrow> exn option \<times> event list" where
  "rebase_step self tr =
     (if norebase self
      then (None, log_ok tr (StderrWrite ''--norebase option set, skipping rebase.''))
      else (case invoke (repo self) tr (GitRebase (upstream self)) of
              (Inl e, tr1) \<Rightarrow>
                (Some (on_GitCommandError
                         (\<lambda>m. raise_ConflictError (''Problem in rebase:'' @ [CHR 0x0A] @ m)) e),
                 tr1)
            | (Inr _, tr1) \<Rightarrow> (None, tr1)))"

text \<open>\<open>switchAndRebase\<close> (lines 167-187). The drop of line 187 is in no \<open>try\<close>.\<close>

definition switchAndRebase :: "TeleScope \<Rightarrow> event list \<Rightarrow> exn option \<times> event list" where
  "switchAndRebase self tr =
     (case switchBranch self tr (thisbranch self) of
        (Some e, tr1) \<Rightarrow> (Some e, tr1)
      | (None, tr1) \<Rightarrow>
          (case rebase_step self tr1 of
             (Some e, tr2) \<Rightarrow> (Some e, tr2)
           | (None, tr2) \<Rightarrow>
               (if noclear self
                then (None, log_ok tr2 (StderrWrite ''--noclear option set, keeping stash.''))
                else (case invoke (repo self) tr2 GitStashDrop of
                        (Inl e, tr3) \<Rightarrow> (Some e, tr3)
                      | (Inr _, tr3) \<Rightarrow> (None, tr3)))))"

subsection \<open>The script (lines 189-269)\<close>

text \<open>The parsed command line (lines 217-237, 248).\<close>

record args =
  arg_norebase :: bool
  arg_noclear :: bool
  arg_email :: "string option"
  arg_message :: "string option"
  arg_branch :: string
  arg_pull :: bool
  arg_remote :: string
  arg_user :: "string option"
  arg_files :: "string list"

text \<open>\<open>str.lower\<close> on ASCII.\<close>

definition lower_char :: "char \<Rightarrow> char" where
  "lower_char c =
     (if (65::nat) \<le> of_char c \<and> of_char c \<le> (90::nat)
      then char_of (of_char c + (32::nat)) else c)"

definition lower :: "string \<Rightarrow> string" where
  "lower s = map lower_char s"

text \<open>The three phases in sequence (lines 262-264), on a constructed instance.\<close>

definition run_phases :: "TeleScope \<Rightarrow> event list \<Rightarrow> string list option
    \<Rightarrow> exn option \<times> TeleScope \<times> event list" where
  "run_phases scoper tr files =
     (case stashChanges scoper tr of
        (Some e, tr1) \<Rightarrow> (Some e, scoper, tr1)
      | (None, tr1) \<Rightarrow>
          (case applyChanges scoper tr1 files of
             (Some e, scoper1, tr2) \<Rightarrow> (Some e, scoper1, tr2)
           | (None, scoper1, tr2) \<Rightarrow>
               (case switchAndRebase scoper1 tr2 of
                  (res, tr3) \<Rightarrow> (res, scoper1, tr3))))"

text \<open>The body of the \<open>try\<close> of lines 258-264: the exception it raises, if any.\<close>

definition main_try :: "git_repo \<Rightarrow> event list \<Rightarrow> pyremote option \<Rightarrow> args
    \<Rightarrow> exn option \<times> event list" where
  "main_try r tr tsRemote a =
     (case TeleScope_init r tr (arg_branch a) tsRemote (arg_user a) (arg_email a)
             (arg_message a) (arg_norebase a) (arg_noclear a) (arg_pull a) of
        (Inl e, tr1) \<Rightarrow> (Some e, tr1)
      | (Inr scoper, tr1) \<Rightarrow>
          (case run_phases scoper tr1 (Some (arg_files a)) of
             (res, scoper1, tr2) \<Rightarrow> (res, tr2)))"

text \<open>
  How the process ends: an exit status (that of \<open>sys.exit\<close>, or 0 when the script runs
  to its last line), or an exception nothing caught.
\<close>

datatype ending = Exit nat | Uncaught exn

text \<open>The remote of lines 249-256: \<open>None\<close> for the name "none" in any case of letters.\<close>

definition lookup_remote :: "git_repo \<Rightarrow> string \<Rightarrow> (exn + pyremote option) \<times> event list" where
  "lookup_remote r name =
     (if lower name \<noteq> ''none''
      then (case getitem (remotes r) RemotesGetitem [] name of
              (Inl e, tr) \<Rightarrow> (Inl e, tr)
            | (Inr n, tr) \<Rightarrow> (Inr (Some (RemoteObj n)), tr))
      else (Inr None, []))"

text \<open>
  The script (lines 239-269), from the result of \<open>git.Repo(here)\<close> and the parsed
  arguments. The handler of lines 265-266 writes the message and the script ends there.
\<close>

definition main :: "exn + git_repo \<Rightarrow> args \<Rightarrow> ending \<times> event list" where
  "main repo_here a =
     (case repo_here of
        Inl e \<Rightarrow>
          (case e of
             InvalidGitRepositoryError _ \<Rightarrow>
               (Exit BRANCHERROR,
                log_ok [] (StderrWrite (''You must be inside a git repository to run tele-scope.''
                                        @ [CHR 0x0A])))
           | _ \<Rightarrow> (Uncaught e, []))
      | Inr r \<Rightarrow>
          (case lookup_remote r (arg_remote a) of
             (Inl e, tr) \<Rightarrow>
               (case e of
                  IndexError _ \<Rightarrow>
                    (Exit REMOTERROR,
                     log_ok (log_ok tr (StderrWrite (''No remote '' @ arg_remote a @ '' found.''
                                                     @ [CHR 0x0A])))
                       (StderrWrite (''To run without remote, use '' @ [CHR 0x22] @ ''-r None''
                                     @ [CHR 0x22, CHR 0x0A])))
                | _ \<Rightarrow> (Uncaught e, tr))
           | (Inr tsRemote, tr) \<Rightarrow>
               (case main_try r tr tsRemote a of
                  (Some ex, tr1) \<Rightarrow> (Exit 0, log_ok tr1 (StderrWrite (exn_message ex)))
                | (None, tr1) \<Rightarrow>
                    (Exit SUCCESS,
                     log_ok tr1 (Print ''Re-scope complete.'')))))"

text \<open>The calls of a log.\<close>

definition calls :: "event list \<Rightarrow> call list" where
  "calls tr = map fst tr"

text \<open>The part of a log that a method added to the log it started from.\<close>

definition added :: "event list \<Rightarrow> event list \<Rightarrow> event list" where
  "added tr tr1 = drop (length tr) tr1"

subsection \<open>Shapes of logs\<close>

fun is_GitAdd :: "call \<Rightarrow> bool" where
  "is_GitAdd (GitAdd p) = True"
| "is_GitAdd _ = False"

text \<open>A run of \<open>git add\<close> calls that all returned.\<close>

definition adds_ok :: "event list \<Rightarrow> bool" where
  "adds_ok evs = list_all (\<lambda>ev. is_GitAdd (fst ev) \<and> snd ev = None) evs"

text \<open>The log of a branch switch that returned.\<close>

definition switched :: "string \<Rightarrow> event list" where
  "switched b = [(HeadsGetitem b, None), (Checkout b, None)]"

text \<open>The commit call of line 149.\<close>

definition commit_call :: "TeleScope \<Rightarrow> call" where
  "commit_call self = GitCommit (authorstring (user self) (email self)) (message self)"

text \<open>The log of the rebase step when it raised nothing.\<close>

definition rebased :: "TeleScope \<Rightarrow> event list" where
  "rebased self =
     (if norebase self then [(StderrWrite ''--norebase option set, skipping rebase.'', None)]
      else [(GitRebase (upstream self), None)])"

subsection \<open>Concrete inputs\<close>

text \<open>
  A repository on branch \<open>topic\<close> with an upstream \<open>master\<close> and a remote
  \<open>origin\<close>, whose configuration names the user and where every git command returns.
\<close>

definition example_repo :: git_repo where
  "example_repo =
     \<lparr>cls = GitRepo, active_branch = Inr ''topic'',
      config = (\<lambda>k. if k = (''user'', ''name'') then Some ''Ann'' else None),
      heads = [''master'', ''topic''], remotes = [''origin''], working_dir = ''/w'',
      git = (\<lambda>tr c. Inr []),
      os_abspath = (\<lambda>p. if take 1 p = ''/'' then p else ''/w/'' @ p)\<rparr>"

text \<open>
  The same repository when the push cannot reach the remote: \<open>Remote.push\<close> raises
  GitCommandError.
\<close>

definition push_raising_repo :: git_repo where
  "push_raising_repo =
     example_repo\<lparr>git := (\<lambda>tr c. case c of
                                  RemotePush n \<Rightarrow>
                                    Inl (GitCommandError ''Could not read from remote repository.'')
                                | _ \<Rightarrow> Inr [])\<rparr>"

text \<open>
  The same repository when the push returns \<open>result\<close>. \<open>Remote.push\<close> raises nothing
  when the remote rejects a head: it returns the PushInfo of the head, flagged as an error,
  here written as the status line git prints for the head.
\<close>

definition push_returning_repo :: "string \<Rightarrow> git_repo" where
  "push_returning_repo result =
     example_repo\<lparr>git := (\<lambda>tr c. case c of
                                  RemotePush n \<Rightarrow> Inr result
                                | _ \<Rightarrow> Inr [])\<rparr>"

text \<open>What the push returns when the remote's \<open>master\<close> has commits the local one lacks.\<close>

definition rejected_push :: string where
  "rejected_push = ''! refs/heads/master:refs/heads/master [rejected] (non-fast-forward)''"

text \<open>The same repository with a clean working tree: \<open>git stash\<close> has nothing to save.\<close>

definition clean_repo :: git_repo where
  "clean_repo =
     example_repo\<lparr>git := (\<lambda>tr c. case c of
                                  GitStash \<Rightarrow> Inr ''No local changes to save''
                                | _ \<Rightarrow> Inr [])\<rparr>"

text \<open>The command line \<open>tele-scope -m msg -p\<close>: pull first, no files named.\<close>

definition example_args :: args where
  "example_args =
     \<lparr>arg_norebase = False, arg_noclear = False, arg_email = None,
      arg_message = Some ''msg'', arg_branch = ''master'', arg_pull = True,
      arg_remote = ''origin'', arg_user = None, arg_files = []\<rparr>"

text \<open>The instance the constructor builds on \<open>example_repo\<close> for these arguments.\<close>

definition example_scoper :: TeleScope where
  "example_scoper =
     \<lparr>repo = example_repo, thisbranch = ''topic'', upstream = ''master'',
      remote = Some (RemoteObj ''origin''), user = Some ''Ann'', email = None,
      message = Some ''msg'', norebase = False, noclear = False, reapply = False,
      pull = True\<rparr>"

text \<open>An instance for which neither a name nor an email resolved.\<close>

definition anonymous_scoper :: TeleScope where
  "anonymous_scoper = example_scoper\<lparr>user := None, email := None\<rparr>"

section \<open>Properties\<close>

subsection \<open>Evaluation and the logs of the methods\<close>

lemmas model_defs = run_phases_def stashChanges_def applyChanges_def switchAndRebase_def
  switchBranch_def rebase_step_def push_changes_def backoutChanges_def getitem_def invoke_def
  log_ok_def log_raise_def on_GitCommandError_def switchBranch_except_def
  raise_BranchError_def raise_StashError_def raise_CommitError_def raise_RemoteError_def
  raise_ConflictError_def super_init_def mangle_def StandardError_attrs_def TeleScope_attrs_def
  quoted_def authorstring_def example_repo_def example_scoper_def example_args_def
  anonymous_scoper_def push_raising_repo_def push_returning_repo_def rejected_push_def
  clean_repo_def main_def main_try_def
  lookup_remote_def lower_def lower_char_def TeleScope_init_def getOption_def Let_def
  added_def calls_def commit_call_def
  SUCCESS_def BRANCHERROR_def STASHERROR_def COMMITERROR_def REMOTERROR_def CONFLICTS_def

lemma split_user_name: "split_on CHR ''.'' ''user.name'' = [''user'', ''name'']"
  by simp

lemma split_user_email: "split_on CHR ''.'' ''user.email'' = [''user'', ''email'']"
  by simp

lemma getOption_user_name:
  "getOption r tr ''user.name'' v =
     (if v = None then
        (if config r (''user'', ''name'') \<noteq> None
         then (Inr (config r (''user'', ''name'')),
               tr @ [(HasOption ''user'' ''name'', None), (GetValue ''user'' ''name'', None)])
         else (Inr None, tr @ [(HasOption ''user'' ''name'', None)]))
      else (Inr v, tr))"
  unfolding getOption_def split_user_name by (simp add: log_ok_def Let_def)

lemma getOption_user_email:
  "getOption r tr ''user.email'' v =
     (if v = None then
        (if config r (''user'', ''email'') \<noteq> None
         then (Inr (config r (''user'', ''email'')),
               tr @ [(HasOption ''user'' ''email'', None), (GetValue ''user'' ''email'', None)])
         else (Inr None, tr @ [(HasOption ''user'' ''email'', None)]))
      else (Inr v, tr))"
  unfolding getOption_def split_user_email by (simp add: log_ok_def Let_def)

lemma adds_ok_Nil: "adds_ok []" by (simp add: adds_ok_def)

lemma adds_ok_Cons: "adds_ok (ev # evs) = (is_GitAdd (fst ev) \<and> snd ev = None \<and> adds_ok evs)"
  by (simp add: adds_ok_def)

lemma adds_ok_mem: "adds_ok adds \<Longrightarrow> (c, x) \<in> set adds \<Longrightarrow> is_GitAdd c \<and> x = None"
  by (auto simp: adds_ok_def list_all_iff)

lemma invoke_Inl: "git r tr c = Inl e \<Longrightarrow> invoke r tr c = (Inl e, tr @ [(c, Some e)])"
  by (simp add: invoke_def log_raise_def)

lemma invoke_Inr: "git r tr c = Inr v \<Longrightarrow> invoke r tr c = (Inr v, tr @ [(c, None)])"
  by (simp add: invoke_def log_ok_def)

lemma add_files_shape:
  "add_files r tr fs = (res, tr1) \<Longrightarrow>
     \<exists>adds. adds_ok adds \<and>
       ((res = None \<and> tr1 = tr @ adds) \<or>
        (\<exists>p e. res = Some e \<and> tr1 = tr @ adds @ [(GitAdd p, Some e)]))"
proof (induction fs arbitrary: tr)
  case Nil
  then show ?case by (auto intro: exI[of _ "[]"] simp: adds_ok_Nil)
next
  case (Cons f fs)
  show ?case
  proof (cases "git r tr (GitAdd (os_abspath r f))")
    case (Inl e)
    with Cons.prems have "res = Some e" "tr1 = tr @ [] @ [(GitAdd (os_abspath r f), Some e)]"
      by (auto simp: invoke_def log_raise_def)
    then show ?thesis using adds_ok_Nil by blast
  next
    case (Inr v)
    with Cons.prems have "add_files r (tr @ [(GitAdd (os_abspath r f), None)]) fs = (res, tr1)"
      by (auto simp: invoke_def log_ok_def)
    from Cons.IH[OF this] obtain adds where
      a: "adds_ok adds"
         "(res = None \<and> tr1 = (tr @ [(GitAdd (os_abspath r f), None)]) @ adds) \<or>
          (\<exists>p e. res = Some e \<and>
                 tr1 = (tr @ [(GitAdd (os_abspath r f), None)]) @ adds @ [(GitAdd p, Some e)])"
      by blast
    have "adds_ok ((GitAdd (os_abspath r f), None) # adds)"
      using a(1) by (simp add: adds_ok_Cons)
    moreover have "(res = None \<and> tr1 = tr @ ((GitAdd (os_abspath r f), None) # adds)) \<or>
          (\<exists>p e. res = Some e \<and>
                 tr1 = tr @ ((GitAdd (os_abspath r f), None) # adds) @ [(GitAdd p, Some e)])"
      using a(2) by auto
    ultimately show ?thesis by blast
  qed
qed

lemma switchBranch_log:
  "switchBranch self tr b = (res, tr1) \<Longrightarrow>
     (\<exists>e. res = Some (switchBranch_except b e) \<and>
          (tr1 = tr @ [(HeadsGetitem b, Some e)] \<or>
           tr1 = tr @ [(HeadsGetitem b, None), (Checkout b, Some e)])) \<or>
     (res = None \<and> tr1 = tr @ [(HeadsGetitem b, None), (Checkout b, None)])"
  by (auto simp: switchBranch_def getitem_def invoke_def log_ok_def log_raise_def
           split: if_splits sum.splits)

lemma stashChanges_log:
  "stashChanges self tr = (res, tr1) \<Longrightarrow>
     (\<exists>x. tr1 = tr @ [(GitStash, x)] \<and> (res = None \<longrightarrow> x = None))"
  by (auto simp: stashChanges_def invoke_def log_ok_def log_raise_def
           split: if_splits sum.splits)

lemma push_changes_log:
  "push_changes self tr = (res, tr1) \<Longrightarrow>
     (remote self = None \<and> res = None \<and> tr1 = tr) \<or>
     (\<exists>n. remote self = Some (RemoteName n) \<and> res \<noteq> None \<and> tr1 = tr) \<or>
     (\<exists>n. remote self = Some (RemoteObj n) \<and> res = None \<and> tr1 = tr @ [(RemotePush n, None)]) \<or>
     (\<exists>n e. remote self = Some (RemoteObj n) \<and> res \<noteq> None \<and> tr1 = tr @ [(RemotePush n, Some e)])"
  by (auto simp: push_changes_def invoke_def log_ok_def log_raise_def
           split: if_splits sum.splits option.splits pyremote.splits)

lemma backoutChanges_log:
  "backoutChanges self tr = (res, tr1) \<Longrightarrow>
     res \<noteq> None \<and> (\<exists>x. tr1 = tr @ [(HeadReset, x)])"
  by (auto simp: backoutChanges_def TeleScope_attrs_def invoke_def log_ok_def log_raise_def
           split: if_splits sum.splits)

lemma applyChanges_cases [consumes 1, case_names switch_failed apply_failed add_failed
    commit_failed push_failed pushed_all pushed_some]:
  assumes run: "applyChanges self tr files = (res, self1, tr1)"
  obtains
    e0 e where "res = Some e0"
      "tr1 = tr @ [(HeadsGetitem (upstream self), Some e)] \<or>
       tr1 = tr @ [(HeadsGetitem (upstream self), None), (Checkout (upstream self), Some e)]"
  | e0 e where "res = Some e0"
      "tr1 = tr @ switched (upstream self) @ [(GitStashApply, Some e)]"
  | e0 e adds p where "res = Some e0" "adds_ok adds"
      "tr1 = tr @ switched (upstream self) @ [(GitStashApply, None)] @ adds @ [(GitAdd p, Some e)]"
  | e0 e adds where "res = Some e0" "adds_ok adds"
      "tr1 = tr @ switched (upstream self) @ [(GitStashApply, None)] @ adds
               @ [(commit_call self, Some e)]"
  | e0 adds pushes where "res = Some e0" "adds_ok adds"
      "(\<exists>n. remote self = Some (RemoteName n) \<and> pushes = []) \<or>
       (\<exists>n e. remote self = Some (RemoteObj n) \<and> pushes = [(RemotePush n, Some e)])"
      "tr1 = tr @ switched (upstream self) @ [(GitStashApply, None)] @ adds
               @ [(commit_call self, None)] @ pushes"
  | adds pushes where "res = None" "files = None" "\<not> reapply self" "self1 = self" "adds_ok adds"
      "(remote self = None \<and> pushes = []) \<or>
       (\<exists>n. remote self = Some (RemoteObj n) \<and> pushes = [(RemotePush n, None)])"
      "tr1 = tr @ switched (upstream self) @ [(GitStashApply, None)] @ adds
               @ [(commit_call self, None)] @ pushes"
  | e0 x adds pushes where "res = Some e0" "files \<noteq> None \<or> reapply self" "adds_ok adds"
      "(remote self = None \<and> pushes = []) \<or>
       (\<exists>n. remote self = Some (RemoteObj n) \<and> pushes = [(RemotePush n, None)])"
      "tr1 = tr @ switched (upstream self) @ [(GitStashApply, None)] @ adds
               @ [(commit_call self, None)] @ pushes @ [(HeadReset, x)]"
proof -
  define self2 where "self2 = (case files of None \<Rightarrow> self | Some fs \<Rightarrow> self\<lparr>reapply := True\<rparr>)"
  define files1 where "files1 = (case files of None \<Rightarrow> [working_dir (repo self)] | Some fs \<Rightarrow> fs)"
  have flds: "repo self2 = repo self" "remote self2 = remote self"
    "commit_call self2 = commit_call self"
    by (auto simp: self2_def commit_call_def split: option.splits)
  obtain r1 t1 where sw: "switchBranch self tr (upstream self) = (r1, t1)"
    by (cases "switchBranch self tr (upstream self)")
  show thesis
  proof (cases r1)
    case (Some e0)
    with run sw have "res = Some e0" "tr1 = t1" by (auto simp: applyChanges_def)
    with switchBranch_log[OF sw] Some that(1) show thesis by auto
  next
    case None
    with switchBranch_log[OF sw] have t1: "t1 = tr @ switched (upstream self)"
      by (auto simp: switched_def)
    show thesis
    proof (cases "git (repo self) t1 GitStashApply")
      case (Inl e)
      with run sw None have "res = Some (on_GitCommandError raise_StashError e)"
          "tr1 = t1 @ [(GitStashApply, Some e)]"
        by (auto simp: applyChanges_def invoke_Inl)
      with t1 that(2) show thesis by simp
    next
      case (Inr v)
      define t2 where "t2 = t1 @ [(GitStashApply, None)]"
      obtain r3 t3 where ad: "add_files (repo self2) t2 files1 = (r3, t3)"
        by (cases "add_files (repo self2) t2 files1")
      from add_files_shape[OF ad] obtain adds where adds: "adds_ok adds"
        "(r3 = None \<and> t3 = t2 @ adds) \<or> (\<exists>p e. r3 = Some e \<and> t3 = t2 @ adds @ [(GitAdd p, Some e)])"
        by blast
      show thesis
      proof (cases r3)
        case (Some e)
        with run sw None Inr ad have "res = Some (on_GitCommandError raise_CommitError e)"
            "tr1 = t3"
          by (auto simp: applyChanges_def invoke_Inr Let_def self2_def files1_def t2_def)
        with adds Some t1 t2_def that(3) show thesis by auto
      next
        case r3: None
        with adds have t3: "t3 = t2 @ adds" by simp
        show thesis
        proof (cases "git (repo self) t3 (commit_call self)")
          case (Inl e)
          with run sw None Inr ad r3 flds have
            "res = Some (on_GitCommandError raise_CommitError e)"
            "tr1 = t3 @ [(commit_call self, Some e)]"
            by (auto simp: applyChanges_def invoke_Inr invoke_Inl Let_def self2_def
                  files1_def t2_def commit_call_def split: option.splits)
          with adds(1) t1 t2_def t3 that(4) show thesis by simp
        next
          case c: (Inr v4)
          define t4 where "t4 = t3 @ [(commit_call self, None)]"
          obtain r5 t5 where pu: "push_changes self2 t4 = (r5, t5)"
            by (cases "push_changes self2 t4")
          have rest: "(res, self1, tr1) =
              (case r5 of Some e \<Rightarrow> (Some e, self2, t5)
               | None \<Rightarrow> if reapply self2
                         then (case backoutChanges self2 t5 of (res, tr6) \<Rightarrow> (res, self2, tr6))
                         else (None, self2, t5))"
            using run sw None Inr ad r3 flds c pu
            by (auto simp: applyChanges_def invoke_Inr Let_def self2_def
                  files1_def t2_def t4_def commit_call_def split: option.splits)
          show thesis
          proof (cases r5)
            case (Some e0)
            with rest have r: "res = Some e0" "tr1 = t5" by auto
            from push_changes_log[OF pu] Some flds obtain pushes where p:
              "(\<exists>n. remote self = Some (RemoteName n) \<and> pushes = []) \<or>
               (\<exists>n e. remote self = Some (RemoteObj n) \<and> pushes = [(RemotePush n, Some e)])"
              "t5 = t4 @ pushes"
              by auto
            show thesis
              by (rule that(5)[of e0 adds pushes]) (use r p adds(1) t1 t2_def t3 t4_def in simp_all)
          next
            case r5: None
            with push_changes_log[OF pu] flds obtain pushes where p:
              "(remote self = None \<and> pushes = []) \<or>
               (\<exists>n. remote self = Some (RemoteObj n) \<and> pushes = [(RemotePush n, None)])"
              "t5 = t4 @ pushes"
              by auto
            show thesis
            proof (cases "reapply self2")
              case False
              then have fn: "files = None" "\<not> reapply self"
                by (auto simp: self2_def split: option.splits)
              with rest r5 False have r: "res = None" "self1 = self" "tr1 = t5"
                by (auto simp: self2_def)
              show thesis
                by (rule that(6)[of adds pushes]) (use r fn p adds(1) t1 t2_def t3 t4_def in simp_all)
            next
              case True
              then have fs: "files \<noteq> None \<or> reapply self"
                by (auto simp: self2_def split: option.splits)
              obtain r6 t6 where bo: "backoutChanges self2 t5 = (r6, t6)"
                by (cases "backoutChanges self2 t5")
              with rest r5 True have r: "res = r6" "tr1 = t6" by auto
              from backoutChanges_log[OF bo] obtain e0 x where b:
                "r6 = Some e0" "t6 = t5 @ [(HeadReset, x)]"
                by auto
              show thesis
                by (rule that(7)[of e0 adds pushes x])
                   (use r b fs p adds(1) t1 t2_def t3 t4_def in simp_all)
            qed
          qed
        qed
      qed
    qed
  qed
qed

lemma switchAndRebase_cases [consumes 1, case_names switch_failed rebase_failed kept dropped]:
  assumes run: "switchAndRebase self tr = (res, tr1)"
  obtains
    e0 e where "res = Some e0"
      "tr1 = tr @ [(HeadsGetitem (thisbranch self), Some e)] \<or>
       tr1 = tr @ [(HeadsGetitem (thisbranch self), None), (Checkout (thisbranch self), Some e)]"
  | e0 e where "res = Some e0" "\<not> norebase self"
      "tr1 = tr @ switched (thisbranch self) @ [(GitRebase (upstream self), Some e)]"
  | "res = None" "noclear self"
      "tr1 = tr @ switched (thisbranch self) @ rebased self
               @ [(StderrWrite ''--noclear option set, keeping stash.'', None)]"
  | "\<not> noclear self"
      "tr1 = tr @ switched (thisbranch self) @ rebased self @ [(GitStashDrop, res)]"
proof -
  obtain r1 t1 where sw: "switchBranch self tr (thisbranch self) = (r1, t1)"
    by (cases "switchBranch self tr (thisbranch self)")
  show thesis
  proof (cases r1)
    case (Some e0)
    with run sw have "res = Some e0" "tr1 = t1" by (auto simp: switchAndRebase_def)
    with switchBranch_log[OF sw] Some that(1) show thesis by auto
  next
    case None
    with switchBranch_log[OF sw] have t1: "t1 = tr @ switched (thisbranch self)"
      by (auto simp: switched_def)
    obtain r2 t2 where rb: "rebase_step self t1 = (r2, t2)"
      by (cases "rebase_step self t1")
    show thesis
    proof (cases r2)
      case (Some e0)
      with run sw None rb have r: "res = Some e0" "tr1 = t2" by (auto simp: switchAndRebase_def)
      from rb Some obtain e where "\<not> norebase self" "t2 = t1 @ [(GitRebase (upstream self), Some e)]"
        by (auto simp: rebase_step_def invoke_def log_ok_def log_raise_def
                 split: if_splits sum.splits)
      with r t1 that(2) show thesis by simp
    next
      case r2: None
      with rb have t2: "t2 = t1 @ rebased self"
        by (auto simp: rebase_step_def rebased_def invoke_def log_ok_def log_raise_def
                 split: if_splits sum.splits)
      show thesis
      proof (cases "noclear self")
        case True
        with run sw None rb r2 have "res = None"
          "tr1 = t2 @ [(StderrWrite ''--noclear option set, keeping stash.'', None)]"
          by (auto simp: switchAndRebase_def log_ok_def)
        with True t1 t2 that(3) show thesis by simp
      next
        case False
        with run sw None rb r2 have "tr1 = t2 @ [(GitStashDrop, res)]"
          by (auto simp: switchAndRebase_def invoke_def log_ok_def log_raise_def
                   split: sum.splits)
        with False t1 t2 that(4) show thesis by simp
      qed
    qed
  qed
qed

lemma adds_ok_not_mem:
  "adds_ok adds \<Longrightarrow> \<not> is_GitAdd c \<Longrightarrow> (c, x) \<in> set adds \<longleftrightarrow> False"
  by (auto dest: adds_ok_mem)

text \<open>No run of the three phases calls a pull, whatever the instance and the repository.\<close>

lemma run_phases_never_pulls:
  "RemotePull n \<notin> set (calls (added tr (snd (snd (run_phases self tr files)))))"
proof -
  obtain res self1 tr1 where run: "run_phases self tr files = (res, self1, tr1)"
    by (cases "run_phases self tr files")
  obtain r0 t0 where st: "stashChanges self tr = (r0, t0)"
    by (cases "stashChanges self tr")
  from stashChanges_log[OF st] obtain x where t0: "t0 = tr @ [(GitStash, x)]"
    by blast
  obtain r1 s1 t1 where ap: "applyChanges self t0 files = (r1, s1, t1)"
    by (cases "applyChanges self t0 files")
  have a: "\<exists>new. t1 = tr @ new \<and> RemotePull n \<notin> set (calls new)"
    using ap
    by (cases rule: applyChanges_cases)
       (auto simp: t0 calls_def switched_def commit_call_def adds_ok_not_mem)
  obtain r2 t2 where sr: "switchAndRebase s1 t1 = (r2, t2)"
    by (cases "switchAndRebase s1 t1")
  have b: "\<exists>new. t2 = tr @ new \<and> RemotePull n \<notin> set (calls new)"
    using sr
    by (cases rule: switchAndRebase_cases)
       (use a in \<open>auto simp: calls_def switched_def rebased_def\<close>)
  have "tr1 = t0 \<or> tr1 = t1 \<or> tr1 = t2"
    using run st ap sr by (auto simp: run_phases_def split: option.splits)
  with t0 a b show ?thesis
    using run by (auto simp: added_def calls_def)
qed

text \<open>The script never ends with the status of a stash, commit or rebase failure.\<close>

lemma main_never_exits_with_phase_status:
  "fst (main repo_here a) \<noteq> Exit STASHERROR \<and>
   fst (main repo_here a) \<noteq> Exit COMMITERROR \<and>
   fst (main repo_here a) \<noteq> Exit CONFLICTS"
  by (simp add: main_def SUCCESS_def BRANCHERROR_def STASHERROR_def COMMITERROR_def
        REMOTERROR_def CONFLICTS_def split: sum.split exn.split prod.split option.split)

text \<open>\<open>applyChanges\<close> never calls the forced checkout.\<close>

lemma applyChanges_never_forces_checkout:
  "CheckoutForce \<notin> set (calls (added tr (snd (snd (applyChanges self tr files)))))"
proof -
  obtain res self1 tr1 where run: "applyChanges self tr files = (res, self1, tr1)"
    by (cases "applyChanges self tr files")
  then have "CheckoutForce \<notin> set (calls (added tr tr1))"
    by (cases rule: applyChanges_cases)
       (auto simp: added_def calls_def switched_def commit_call_def adds_ok_not_mem)
  with run show ?thesis by simp
qed

subsection \<open>The stash entry\<close>

text \<open>
  What every run of the three phases does: when \<open>git stash drop\<close> is called at all it
  is the final event, every call before it returned without an exception, among them the
  stash itself, the commit, the push (when a remote is configured) and the rebase (when not
  skipped), and no earlier call is a drop. A run that raises has no drop that returned.
  This speaks of calls that returned, not of a push that succeeded.
\<close>

lemma drop_is_last_call_after_returned_calls:
  assumes run: "run_phases self tr files = (res, self1, tr1)"
  shows "(GitStashDrop \<in> set (calls (added tr tr1)) \<longrightarrow>
            (\<exists>pre. added tr tr1 = pre @ [(GitStashDrop, res)] \<and>
                   GitStashDrop \<notin> set (calls pre) \<and>
                   list_all (\<lambda>ev. snd ev = None) pre \<and>
                   (GitStash, None) \<in> set pre \<and>
                   (commit_call self, None) \<in> set pre \<and>
                   (remote self = None \<or>
                    (\<exists>n. remote self = Some (RemoteObj n) \<and> (RemotePush n, None) \<in> set pre)) \<and>
                   (norebase self \<or> (GitRebase (upstream self), None) \<in> set pre))) \<and>
         (res \<noteq> None \<longrightarrow> (GitStashDrop, None) \<notin> set (added tr tr1))"
proof -
  obtain r0 t0 where st: "stashChanges self tr = (r0, t0)"
    by (cases "stashChanges self tr")
  from stashChanges_log[OF st] obtain x where t0: "t0 = tr @ [(GitStash, x)]" "r0 = None \<longrightarrow> x = None"
    by blast
  show ?thesis
  proof (cases r0)
    case (Some e)
    with run st have "tr1 = t0" by (simp add: run_phases_def)
    with t0 show ?thesis by (simp add: added_def calls_def)
  next
    case None
    with t0 have t0': "t0 = tr @ [(GitStash, None)]" by simp
    obtain r1 s1 t1 where ap: "applyChanges self t0 files = (r1, s1, t1)"
      by (cases "applyChanges self t0 files")
    have nodrop: "GitStashDrop \<notin> set (calls (added tr t1)) \<and> (GitStashDrop, None) \<notin> set (added tr t1)"
      using ap
      by (cases rule: applyChanges_cases)
         (auto simp: t0' added_def calls_def switched_def commit_call_def dest: adds_ok_mem)
    show ?thesis
    proof (cases r1)
      case (Some e)
      with run st None ap have "tr1 = t1" by (simp add: run_phases_def)
      with nodrop show ?thesis by simp
    next
      case r1: None
      from ap r1 obtain adds pushes where a:
        "\<not> reapply self" "s1 = self" "adds_ok adds"
        "(remote self = None \<and> pushes = []) \<or>
         (\<exists>n. remote self = Some (RemoteObj n) \<and> pushes = [(RemotePush n, None)])"
        "t1 = t0 @ switched (upstream self) @ [(GitStashApply, None)] @ adds
               @ [(commit_call self, None)] @ pushes"
        by (cases rule: applyChanges_cases) auto
      from run st None ap r1 a(2) have sr: "switchAndRebase self t1 = (res, tr1)"
        by (auto simp: run_phases_def split: prod.splits)
      define up where "up = [(GitStash, None)] @ switched (upstream self) @ [(GitStashApply, None)] @ adds
               @ [(commit_call self, None)] @ pushes"
      have t1: "t1 = tr @ up" using a(5) t0' by (simp add: up_def)
      have up: "GitStashDrop \<notin> set (calls up)" "list_all (\<lambda>ev. snd ev = None) up"
        "(GitStash, None) \<in> set up" "(commit_call self, None) \<in> set up"
        "remote self = None \<or> (\<exists>n. remote self = Some (RemoteObj n) \<and> (RemotePush n, None) \<in> set up)"
        using a(3,4)
        by (auto simp: up_def calls_def switched_def commit_call_def list_all_iff dest: adds_ok_mem)
      have nd: "(GitStashDrop, x) \<notin> set up" for x
        using up(1) by (force simp: calls_def)
      from sr show ?thesis
      proof (cases rule: switchAndRebase_cases)
        case (switch_failed e0 e)
        with t1 up(1) nd show ?thesis by (auto simp: added_def calls_def image_iff)
      next
        case (rebase_failed e0 e)
        with t1 up(1) nd show ?thesis by (auto simp: added_def calls_def switched_def image_iff)
      next
        case kept
        with t1 up(1) nd show ?thesis by (auto simp: added_def calls_def switched_def rebased_def image_iff)
      next
        case dropped
        define pre where "pre = up @ switched (thisbranch self) @ rebased self"
        have new: "added tr tr1 = pre @ [(GitStashDrop, res)]"
          using dropped t1 by (simp add: added_def pre_def)
        have pre: "GitStashDrop \<notin> set (calls pre)" "list_all (\<lambda>ev. snd ev = None) pre"
          "(GitStash, None) \<in> set pre" "(commit_call self, None) \<in> set pre"
          "remote self = None \<or> (\<exists>n. remote self = Some (RemoteObj n) \<and> (RemotePush n, None) \<in> set pre)"
          "norebase self \<or> (GitRebase (upstream self), None) \<in> set pre"
          using up by (auto simp: pre_def calls_def switched_def rebased_def)
        have "res \<noteq> None \<longrightarrow> (GitStashDrop, None) \<notin> set (added tr tr1)"
          using new pre(1) by (force simp: calls_def)
        with new pre show ?thesis by blast
      qed
    qed
  qed
qed

text \<open>
  C1 says that the stash entry is dropped only after the push has succeeded. When the
  remote rejects the push, the push returns the rejection and raises nothing; line 156
  never reads what it returns, so the run goes on to the rebase and line 187 drops the
  stash entry although nothing was pushed. Whatever the push returns, the drop is the last
  event of the run.
\<close>

theorem stash_dropped_after_rejected_push:
  "git (push_returning_repo rejected_push) tr (RemotePush ''origin'') = Inr rejected_push \<and>
   run_phases (example_scoper\<lparr>repo := push_returning_repo rejected_push\<rparr>) [] None =
     (None, example_scoper\<lparr>repo := push_returning_repo rejected_push\<rparr>,
      [(GitStash, None), (HeadsGetitem ''master'', None), (Checkout ''master'', None),
       (GitStashApply, None), (GitAdd ''/w'', None),
       (GitCommit (Some ''Ann'') (Some ''msg''), None), (RemotePush ''origin'', None),
       (HeadsGetitem ''topic'', None), (Checkout ''topic'', None),
       (GitRebase ''master'', None), (GitStashDrop, None)]) \<and>
   last (snd (snd (run_phases (example_scoper\<lparr>repo := push_returning_repo result\<rparr>) [] None)))
     = (GitStashDrop, None)"
  by (simp add: model_defs)

subsection \<open>Exit status\<close>

text \<open>
  C2 says that a failing phase ends the process with the non-zero status of the failure's
  category. On a clean working tree \<open>git stash\<close> answers "No local changes to save",
  \<open>stashChanges\<close> raises StashError, the handler of lines 265-266 writes the message
  to the error stream, and the script runs to its end: the exit status is 0, not
  \<open>STASHERROR\<close>. Whatever the repository and the arguments, the script never ends with
  the status of a stash, commit or rebase failure.
\<close>

theorem failed_run_exits_with_status_zero:
  "fst (main_try clean_repo [(RemotesGetitem ''origin'', None)]
          (Some (RemoteObj ''origin'')) example_args)
     = Some (StashError ''No local changes to save'') \<and>
   main (Inr clean_repo) example_args =
     (Exit 0,
      [(RemotesGetitem ''origin'', None), (ActiveBranch, None), (ConfigReader, None),
       (HasOption ''user'' ''name'', None), (GetValue ''user'' ''name'', None),
       (HasOption ''user'' ''email'', None), (GitStash, None),
       (StderrWrite ''No local changes to save'', None)]) \<and>
   STASHERROR = 2 \<and>
   fst (main repo_here a) \<noteq> Exit STASHERROR \<and>
   fst (main repo_here a) \<noteq> Exit COMMITERROR \<and>
   fst (main repo_here a) \<noteq> Exit CONFLICTS"
proof -
  have "fst (main_try clean_repo [(RemotesGetitem ''origin'', None)]
               (Some (RemoteObj ''origin'')) example_args)
          = Some (StashError ''No local changes to save'')"
    by (simp add: model_defs)
  moreover have "main (Inr clean_repo) example_args =
     (Exit 0,
      [(RemotesGetitem ''origin'', None), (ActiveBranch, None), (ConfigReader, None),
       (HasOption ''user'' ''name'', None), (GetValue ''user'' ''name'', None),
       (HasOption ''user'' ''email'', None), (GitStash, None),
       (StderrWrite ''No local changes to save'', None)])"
    by (simp add: model_defs)
  moreover have "STASHERROR = 2"
    by (simp add: STASHERROR_def)
  ultimately show ?thesis
    using main_never_exits_with_phase_status[of repo_here a] by blast
qed

subsection \<open>File selection\<close>

text \<open>
  C3 says that an empty file selection stages the whole working tree and leaves the
  re-apply flag false. The command line with no file named passes the empty list, which is
  not \<open>None\<close>: line 132 sets \<open>reapply\<close>, the loop of lines 136-137 adds nothing, and
  the commit is made with nothing staged by the script.
\<close>

theorem empty_selection_sets_reapply_and_stages_nothing:
  "reapply (fst (snd (applyChanges example_scoper [] (Some [])))) = True \<and>
   calls (snd (snd (applyChanges example_scoper [] (Some [])))) =
     [HeadsGetitem ''master'', Checkout ''master'', GitStashApply,
      GitCommit (Some ''Ann'') (Some ''msg''), RemotePush ''origin'', HeadReset] \<and>
   reapply (fst (snd (applyChanges example_scoper [] None))) = False \<and>
   calls (snd (snd (applyChanges example_scoper [] None))) =
     [HeadsGetitem ''master'', Checkout ''master'', GitStashApply, GitAdd ''/w'',
      GitCommit (Some ''Ann'') (Some ''msg''), RemotePush ''origin'']"
  by (simp add: model_defs)

subsection \<open>The author string\<close>

text \<open>
  C4, as the code has it. The author string is "Name <email>" when both are set and the
  one that is set when only one is. When neither is set the author string is \<open>None\<close>
  and the commit is still called, with no author: whenever the stash was applied and no
  \<open>git add\<close> raised, the log holds the commit call with the author string computed
  from the two fields, whatever they are.
\<close>

theorem author_string_passed_to_commit:
  "authorstring (Some n) (Some em) = Some (n @ '' <'' @ em @ ''>'') \<and>
   authorstring (Some n) None = Some n \<and>
   authorstring None (Some em) = Some em \<and>
   authorstring None None = None \<and>
   (applyChanges self tr files = (res, self1, tr1) \<longrightarrow>
    (GitStashApply, None) \<in> set (added tr tr1) \<longrightarrow>
    list_all (\<lambda>ev. snd ev = None \<or> \<not> is_GitAdd (fst ev)) (added tr tr1) \<longrightarrow>
    (\<exists>x. (GitCommit (authorstring (user self) (email self)) (message self), x)
            \<in> set (added tr tr1)))"
proof -
  have "\<exists>x. (GitCommit (authorstring (user self) (email self)) (message self), x)
            \<in> set (added tr tr1)"
    if run: "applyChanges self tr files = (res, self1, tr1)"
      and ap: "(GitStashApply, None) \<in> set (added tr tr1)"
      and ad: "list_all (\<lambda>ev. snd ev = None \<or> \<not> is_GitAdd (fst ev)) (added tr tr1)"
    using run
  proof (cases rule: applyChanges_cases)
    case (switch_failed e0 e)
    with ap show ?thesis by (auto simp: added_def)
  next
    case (apply_failed e0 e)
    with ap show ?thesis by (auto simp: added_def switched_def)
  next
    case (add_failed e0 e adds p)
    with ad show ?thesis by (auto simp: added_def switched_def)
  next
    case (commit_failed e0 e adds)
    then show ?thesis by (auto simp: added_def commit_call_def)
  next
    case (push_failed e0 adds pushes)
    then show ?thesis by (auto simp: added_def commit_call_def)
  next
    case (pushed_all adds pushes)
    then show ?thesis by (auto simp: added_def commit_call_def)
  next
    case (pushed_some e0 x adds pushes)
    then show ?thesis by (auto simp: added_def commit_call_def)
  qed
  then show ?thesis by (simp add: authorstring_def)
qed

theorem author_string_passed_to_commit_witness:
  "authorstring (Some ''Ann'') (Some ''ann@example.org'') = Some ''Ann <ann@example.org>'' \<and>
   applyChanges anonymous_scoper [] None =
     (None, anonymous_scoper,
      [(HeadsGetitem ''master'', None), (Checkout ''master'', None), (GitStashApply, None),
       (GitAdd ''/w'', None), (GitCommit None (Some ''msg''), None),
       (RemotePush ''origin'', None)]) \<and>
   (GitStashApply, None) \<in> set (added [] (snd (snd (applyChanges anonymous_scoper [] None)))) \<and>
   (GitCommit None (Some ''msg''), None)
     \<in> set (added [] (snd (snd (applyChanges anonymous_scoper [] None))))"
  using author_string_passed_to_commit
          [of "''Ann''" "''ann@example.org''" anonymous_scoper "[]" None
              "fst (applyChanges anonymous_scoper [] None)"
              "fst (snd (applyChanges anonymous_scoper [] None))"
              "snd (snd (applyChanges anonymous_scoper [] None))"]
  by (simp add: model_defs)

text \<open>
  Against C4 as stated: with neither a name nor an email the commit step does not fail,
  and the commit is called.
\<close>

theorem missing_identity_still_commits:
  "user anonymous_scoper = None \<and> email anonymous_scoper = None \<and>
   fst (applyChanges anonymous_scoper [] None) = None \<and>
   (GitCommit None (Some ''msg''), None) \<in> set (snd (snd (applyChanges anonymous_scoper [] None)))"
  by (simp add: model_defs)

subsection \<open>Pull before commit\<close>

text \<open>
  C5 says that a run with the pull flag set pulls from the remote before the commit. No
  method calls \<open>pullFromRemote\<close>: in the full run of an instance with \<open>pull\<close> set and a
  remote configured, the commit follows the staging directly; and no run at all, of any
  instance on any repository, calls a pull.
\<close>

theorem pull_flag_pulls_nothing:
  "pull example_scoper = True \<and> remote example_scoper = Some (RemoteObj ''origin'') \<and>
   fst (run_phases example_scoper [] None) = None \<and>
   calls (snd (snd (run_phases example_scoper [] None))) =
     [GitStash, HeadsGetitem ''master'', Checkout ''master'', GitStashApply, GitAdd ''/w'',
      GitCommit (Some ''Ann'') (Some ''msg''), RemotePush ''origin'',
      HeadsGetitem ''topic'', Checkout ''topic'', GitRebase ''master'', GitStashDrop] \<and>
   RemotePull n \<notin> set (calls (added tr (snd (snd (run_phases self tr files)))))"
proof -
  have "pull example_scoper = True \<and> remote example_scoper = Some (RemoteObj ''origin'') \<and>
   fst (run_phases example_scoper [] None) = None \<and>
   calls (snd (snd (run_phases example_scoper [] None))) =
     [GitStash, HeadsGetitem ''master'', Checkout ''master'', GitStashApply, GitAdd ''/w'',
      GitCommit (Some ''Ann'') (Some ''msg''), RemotePush ''origin'',
      HeadsGetitem ''topic'', Checkout ''topic'', GitRebase ''master'', GitStashDrop]"
    by (simp add: model_defs)
  then show ?thesis
    using run_phases_never_pulls[of n tr self files] by blast
qed

subsection \<open>Backing out a partial migration\<close>

text \<open>
  C6 says that after the commit and push of a partial migration the index is reset and the
  unstaged changes are then discarded by a forced checkout. Line 165 asks the TeleScope
  instance for \<open>active_branch\<close>, which it does not have: after the reset the method
  raises AttributeError and the run fails; the forced checkout is called in no run of
  \<open>applyChanges\<close> at all.
\<close>

theorem backout_stops_after_reset:
  "applyChanges example_scoper [] (Some [''a.txt'']) =
     (Some (AttributeError (''TeleScope instance has no attribute '' @ quoted ''active_branch'')),
      example_scoper\<lparr>reapply := True\<rparr>,
      [(HeadsGetitem ''master'', None), (Checkout ''master'', None), (GitStashApply, None),
       (GitAdd ''/w/a.txt'', None), (GitCommit (Some ''Ann'') (Some ''msg''), None),
       (RemotePush ''origin'', None), (HeadReset, None)]) \<and>
   CheckoutForce \<notin> set (calls (added tr (snd (snd (applyChanges self tr files)))))"
proof -
  have "applyChanges example_scoper [] (Some [''a.txt'']) =
     (Some (AttributeError (''TeleScope instance has no attribute '' @ quoted ''active_branch'')),
      example_scoper\<lparr>reapply := True\<rparr>,
      [(HeadsGetitem ''master'', None), (Checkout ''master'', None), (GitStashApply, None),
       (GitAdd ''/w/a.txt'', None), (GitCommit (Some ''Ann'') (Some ''msg''), None),
       (RemotePush ''origin'', None), (HeadReset, None)])"
    by (simp add: model_defs)
  then show ?thesis
    using applyChanges_never_forces_checkout[of tr self files] by blast
qed

subsection \<open>A failing push\<close>

text \<open>
  What every run does when the push raises: the run fails and the push is its last event;
  the calls before it are only the stash, the switch to the upstream branch, the stash
  apply, the adds and the commit, and all of them returned.
\<close>

lemma raising_push_is_last_event:
  assumes run: "run_phases self tr files = (res, self1, tr1)"
      and push: "(RemotePush n, Some e) \<in> set (added tr tr1)"
  shows "res \<noteq> None \<and>
         (\<exists>pre. added tr tr1 = pre @ [(RemotePush n, Some e)] \<and>
                list_all (\<lambda>ev. snd ev = None) pre \<and>
                (GitStash, None) \<in> set pre \<and>
                (commit_call self, None) \<in> set pre \<and>
                list_all (\<lambda>c. c = GitStash \<or> c = HeadsGetitem (upstream self) \<or>
                              c = Checkout (upstream self) \<or> c = GitStashApply \<or>
                              is_GitAdd c \<or> c = commit_call self) (calls pre))"
proof -
  obtain r0 t0 where st: "stashChanges self tr = (r0, t0)"
    by (cases "stashChanges self tr")
  from stashChanges_log[OF st] obtain x where t0: "t0 = tr @ [(GitStash, x)]" "r0 = None \<longrightarrow> x = None"
    by blast
  show ?thesis
  proof (cases r0)
    case (Some e1)
    with run st have "tr1 = t0" by (simp add: run_phases_def)
    with t0 push show ?thesis by (simp add: added_def)
  next
    case None
    with t0 have t0': "t0 = tr @ [(GitStash, None)]" by simp
    obtain r1 s1 t1 where ap: "applyChanges self t0 files = (r1, s1, t1)"
      by (cases "applyChanges self t0 files")
    show ?thesis
    proof (cases r1)
      case (Some e1)
      with run st None ap have r: "tr1 = t1" "res = Some e1" by (simp_all add: run_phases_def)
      from ap show ?thesis
      proof (cases rule: applyChanges_cases)
        case (push_failed e0 adds pushes)
        with push r t0' have p: "pushes = [(RemotePush n, Some e)]"
          by (auto simp: added_def switched_def commit_call_def dest: adds_ok_mem)
        define pre where "pre = [(GitStash, None)] @ switched (upstream self)
            @ [(GitStashApply, None)] @ adds @ [(commit_call self, None)]"
        have "added tr tr1 = pre @ [(RemotePush n, Some e)]"
          using push_failed(4) p r t0' by (simp add: added_def pre_def)
        moreover have "list_all (\<lambda>ev. snd ev = None) pre" "(GitStash, None) \<in> set pre"
          "(commit_call self, None) \<in> set pre"
          "list_all (\<lambda>c. c = GitStash \<or> c = HeadsGetitem (upstream self) \<or>
                              c = Checkout (upstream self) \<or> c = GitStashApply \<or>
                              is_GitAdd c \<or> c = commit_call self) (calls pre)"
          using push_failed(2)
          by (auto simp: pre_def switched_def calls_def list_all_iff dest: adds_ok_mem)
        ultimately show ?thesis using r by blast
      qed (use push r t0' in \<open>auto simp: added_def switched_def commit_call_def dest: adds_ok_mem\<close>)
    next
      case r1: None
      from ap r1 obtain adds pushes where a:
        "s1 = self" "adds_ok adds"
        "(remote self = None \<and> pushes = []) \<or>
         (\<exists>n. remote self = Some (RemoteObj n) \<and> pushes = [(RemotePush n, None)])"
        "t1 = t0 @ switched (upstream self) @ [(GitStashApply, None)] @ adds
               @ [(commit_call self, None)] @ pushes"
        by (cases rule: applyChanges_cases) auto
      from run st None ap r1 a(1) have sr: "switchAndRebase self t1 = (res, tr1)"
        by (auto simp: run_phases_def split: prod.splits)
      from sr have False
        by (cases rule: switchAndRebase_cases)
           (use push a(2,3,4) t0' in
             \<open>auto simp: added_def switched_def rebased_def commit_call_def split: if_splits
                   dest: adds_ok_mem\<close>)
      then show ?thesis ..
    qed
  qed
qed

text \<open>
  C7 says that a failing push aborts the workflow with the commit and the stash entry in
  place. That holds for a push that raises (the first run below, where the remote cannot be
  reached). A push that the remote rejects raises nothing and returns the rejection, which
  line 156 never reads: whatever the push returns, the run does not abort, switches back,
  rebases and drops the stash entry.
\<close>

theorem rejected_push_does_not_abort:
  "run_phases (example_scoper\<lparr>repo := push_raising_repo\<rparr>) [] None =
     (Some (RemoteError (''Problem with push:'' @ [CHR 0x0A]
                         @ ''Could not read from remote repository.'')),
      example_scoper\<lparr>repo := push_raising_repo\<rparr>,
      [(GitStash, None), (HeadsGetitem ''master'', None), (Checkout ''master'', None),
       (GitStashApply, None), (GitAdd ''/w'', None),
       (GitCommit (Some ''Ann'') (Some ''msg''), None),
       (RemotePush ''origin'',
        Some (GitCommandError ''Could not read from remote repository.''))]) \<and>
   git (push_returning_repo result) tr (RemotePush ''origin'') = Inr result \<and>
   fst (run_phases (example_scoper\<lparr>repo := push_returning_repo result\<rparr>) [] None) = None \<and>
   calls (snd (snd (run_phases (example_scoper\<lparr>repo := push_returning_repo result\<rparr>) [] None))) =
     [GitStash, HeadsGetitem ''master'', Checkout ''master'', GitStashApply, GitAdd ''/w'',
      GitCommit (Some ''Ann'') (Some ''msg''), RemotePush ''origin'',
      HeadsGetitem ''topic'', Checkout ''topic'', GitRebase ''master'', GitStashDrop]"
  by (simp add: model_defs)

subsection \<open>A branch that does not exist\<close>

text \<open>
  C8 says that switching to a name no branch has fails with a BranchError. The lookup
  raises IndexError and line 100 constructs the BranchError, whose constructor (line 7)
  calls \<open>__init\<close> on the \<open>super\<close> proxy: the exception that leaves \<open>switchBranch\<close>
  is an AttributeError.
\<close>

theorem missing_branch_raises_AttributeError:
  "''nosuch'' \<notin> set (heads (repo example_scoper)) \<and>
   switchBranch example_scoper [] ''nosuch'' =
     (Some (AttributeError (quoted ''super'' @ '' object has no attribute ''
                            @ quoted ''_BranchError__init'')),
      [(HeadsGetitem ''nosuch'', Some (IndexError ''No item found with id nosuch''))]) \<and>
   raise_StashError ''x'' = StashError ''x''"
  by (simp add: model_defs)

subsection \<open>The committer's identity\<close>

text \<open>
  C9. In every construction, a name or an email that is given is the one the instance
  holds, and the configuration is asked for \<open>user.name\<close> (or \<open>user.email\<close>) only when
  the corresponding argument is \<open>None\<close>.
\<close>

theorem explicit_identity_takes_precedence:
  assumes "TeleScope_init r tr up rm u e m nb nc p = (res, tr1)"
  shows "(\<forall>self. res = Inr self \<longrightarrow>
            (u \<noteq> None \<longrightarrow> user self = u) \<and> (e \<noteq> None \<longrightarrow> email self = e)) \<and>
         (HasOption ''user'' ''name'' \<in> set (calls (added tr tr1)) \<or>
          GetValue ''user'' ''name'' \<in> set (calls (added tr tr1)) \<longrightarrow> u = None) \<and>
         (HasOption ''user'' ''email'' \<in> set (calls (added tr tr1)) \<or>
          GetValue ''user'' ''email'' \<in> set (calls (added tr tr1)) \<longrightarrow> e = None)"
  using assms
  unfolding TeleScope_init_def getOption_user_name getOption_user_email
  by (auto simp: added_def calls_def log_ok_def log_raise_def Let_def
           split: if_splits sum.splits)

text \<open>
  The configuration names the user "Ann"; the construction is given the name "Bob" and no
  email. The instance holds "Bob", and only \<open>user.email\<close> is asked for.
\<close>

theorem explicit_identity_takes_precedence_witness:
  "config example_repo (''user'', ''name'') = Some ''Ann'' \<and>
   user (projr (fst (TeleScope_init example_repo [] ''master'' None (Some ''Bob'') None None
                       False False False))) = Some ''Bob'' \<and>
   calls (added [] (snd (TeleScope_init example_repo [] ''master'' None (Some ''Bob'') None None
                           False False False))) =
     [ActiveBranch, ConfigReader, HasOption ''user'' ''email''] \<and>
   HasOption ''user'' ''email''
     \<in> set (calls (added [] (snd (TeleScope_init example_repo [] ''master'' None (Some ''Bob'')
                                    None None False False False))))"
  using explicit_identity_takes_precedence
          [of example_repo "[]" "''master''" None "Some ''Bob''" None None False False False
              "fst (TeleScope_init example_repo [] ''master'' None (Some ''Bob'') None None
                      False False False)"
              "snd (TeleScope_init example_repo [] ''master'' None (Some ''Bob'') None None
                      False False False)"]
  by (simp add: model_defs)

subsection \<open>The repository argument\<close>

text \<open>
  C10. In every construction, a repository argument whose class is not \<open>git.Repo\<close>
  itself (a subclass of it included) makes the constructor raise TypeError with the log as
  it was: nothing of the repository has been read and no instance exists.
\<close>

theorem init_rejects_other_class:
  "cls r \<noteq> GitRepo \<Longrightarrow>
   TeleScope_init r tr up rm u e m nb nc p =
     (Inl (TypeError (quoted ''repo'' @ '' must be a Git repository object.'')), tr)"
  by (simp add: TeleScope_init_def)

text \<open>An instance of a subclass of \<open>git.Repo\<close>, on a detached HEAD.\<close>

theorem init_rejects_other_class_witness:
  "cls (example_repo\<lparr>cls := SubclassOfGitRepo ''MyRepo'',
                      active_branch := Inl (TypeError ''HEAD is a detached symbolic reference'')\<rparr>)
     = SubclassOfGitRepo ''MyRepo'' \<and>
   TeleScope_init
       (example_repo\<lparr>cls := SubclassOfGitRepo ''MyRepo'',
                      active_branch := Inl (TypeError ''HEAD is a detached symbolic reference'')\<rparr>)
       [] ''master'' None None None None False False False =
     (Inl (TypeError (quoted ''repo'' @ '' must be a Git repository object.'')), [])"
  using init_rejects_other_class
     [of "example_repo\<lparr>cls := SubclassOfGitRepo ''MyRepo'',
                      active_branch := Inl (TypeError ''HEAD is a detached symbolic reference'')\<rparr>"
         "[]" "''master''" None None None None False False False]
  by simp

end
